theory Spec2Isabelle
  imports Complex_Main
begin

section \<open>The Editor class of app/js/Editor.js\<close>

text \<open>
  The class wraps a CodeMirror widget and a filter input. It keeps the parsed editor
  text in the field \<open>this.data\<close> and reports to its listeners through events.
  Four libraries do the work it coordinates: \<open>json5.parse\<close>, \<open>JSON.stringify\<close>,
  Node's \<open>vm\<close> module and \<open>node-jq\<close>. None of them is part of the repository, so each
  operation below takes the library functions it calls as arguments, and every theorem
  holds for whatever those functions compute.
\<close>

subsection \<open>JavaScript values\<close>

text \<open>
  The values the class handles: what a JSON5 text denotes, and what a script can leave
  in \<open>sandbox.result\<close>. Numbers are the finite ones (\<open>JNum\<close>, both zeros being
  \<open>JNum 0\<close>) and the three others JSON5 can write. Objects are written out in full, as
  lists of properties in insertion order; a function is known by its name only.
  Bigints and symbols are left out.
\<close>

datatype jsval =
    JUndefined
  | JNull
  | JBool bool
  | JNum rat
  | JNaN
  | JPosInf
  | JNegInf
  | JStr string
  | JArr "jsval list"
  | JObj "(string \<times> jsval) list"
  | JFunction string

text \<open>\<open>if (v)\<close>: JavaScript's conversion to a boolean.\<close>

fun truthy :: "jsval \<Rightarrow> bool" where
  "truthy JUndefined = False"
| "truthy JNull = False"
| "truthy (JBool b) = b"
| "truthy (JNum q) = (q \<noteq> 0)"
| "truthy JNaN = False"
| "truthy JPosInf = True"
| "truthy JNegInf = True"
| "truthy (JStr t) = (t \<noteq> [])"
| "truthy (JArr vs) = True"
| "truthy (JObj ps) = True"
| "truthy (JFunction n) = True"

subsection \<open>Calls that may throw\<close>

datatype js_error = SyntaxError | TypeError | ReferenceError | OtherError string

text \<open>
  A call returns a value, throws, or never comes back. A method of the class
  changes the state whichever way it ends, so it yields the way it ended together
  with the state it left.
\<close>

datatype 'a outcome = Returns 'a | Throws js_error | Diverges


subsection \<open>The libraries\<close>

text \<open>
  \<open>json5.parse(text)\<close> returns the value or throws. \<open>JSON.stringify(v, null, 2)\<close>
  returns a string, or \<open>undefined\<close> when there is nothing to serialize.
\<close>

type_synonym parser = "jsval \<Rightarrow> jsval outcome"

type_synonym serializer = "jsval \<Rightarrow> jsval"

text \<open>
  \<open>new vm.Script(code).runInNewContext(sandbox)\<close>. The sandbox object has the two
  properties of line 139. The script writes its globals into that object, so the
  sandbox comes back changed (\<open>sandbox_after\<close>). Line 140 puts the Document object
  itself into the property \<open>x\<close>, not a copy of it: what the script writes into that
  object, it writes into the object \<open>this.data\<close> refers to. \<open>x_object\<close> is that
  object when the script stops. Assigning another value to the variable \<open>x\<close> changes
  \<open>sandbox_x\<close> only.
\<close>

record sandbox =
  sandbox_x :: jsval
  sandbox_result :: jsval

record vm_result =
  completion :: "unit outcome"
  sandbox_after :: sandbox
  x_object :: jsval

type_synonym script_runner = "string \<Rightarrow> sandbox \<Rightarrow> vm_result"

text \<open>
  \<open>jq.run(filter, data, {input: 'json', output: 'json'})\<close> returns a promise. The
  promise is fulfilled with the result, rejected, or stays pending for ever (no
  timeout is set anywhere, and a jq program need not terminate).
\<close>

datatype settlement = Fulfilled jsval | Rejected js_error | Pending

type_synonym query_runner = "string \<Rightarrow> jsval \<Rightarrow> settlement"

subsection \<open>State and events\<close>

text \<open>
  \<open>emitted\<close> is the log of the \<open>this.emit\<close> calls, oldest first; \<open>FilterValid\<close>
  carries the \<open>result\<close> and \<open>type\<close> properties of its payload. \<open>content\<close> is the
  text in the widget. \<open>filter_val\<close> is what \<open>this.filter.val()\<close> returns, \<open>None\<close>
  for \<open>undefined\<close>. \<open>assignments\<close> counts the assignments to the field
  \<open>this.data\<close> that have been executed (lines 102 and 106 are the only ones in the
  class); it is not a field of the class.
\<close>

datatype event = InputValid | FilterEmpty | FilterValid jsval string | FilterInvalid

record editor =
  data :: jsval
  content :: jsval
  filter_val :: "string option"
  emitted :: "event list"
  assignments :: nat

text \<open>
  \<open>this.emit(e)\<close> calls the listeners of the event one after the other and lets an
  exception of a listener through to its caller. The listeners are registered from
  outside the class: \<open>L e\<close> is the exception the listeners of \<open>e\<close> throw, if they
  throw one.
\<close>

type_synonym listeners = "event \<Rightarrow> js_error option"

definition emit :: "listeners \<Rightarrow> event \<Rightarrow> editor \<Rightarrow> unit outcome \<times> editor" where
  "emit L e s =
     ((case L e of None \<Rightarrow> Returns () | Some err \<Rightarrow> Throws err),
      s\<lparr>emitted := emitted s @ [e]\<rparr>)"

definition getValue :: "editor \<Rightarrow> jsval" where
  "getValue s = content s"

text \<open>
  The constructor (lines 28 to 60) shows the welcome message and subscribes to the
  widget. It does not assign \<open>this.data\<close>, and the \<open>change\<close> handler is registered
  (line 59) after the message is set (line 51), so no validation has run: the
  field is \<open>undefined\<close>. The message comes from the module \<open>./welcome-message\<close>.
\<close>

definition constructor :: "string \<Rightarrow> string option \<Rightarrow> editor" where
  "constructor welcomeMessage fv =
     \<lparr>data = JUndefined, content = JStr welcomeMessage, filter_val = fv, emitted = [],
      assignments = 0\<rparr>"

subsection \<open>validate, lines 99 to 109\<close>

text \<open>
  The \<open>emit\<close> of line 103 stands inside the \<open>try\<close>: an exception of a listener of
  \<open>input-valid\<close> is caught at line 105 like one of the parser.
\<close>

definition validate :: "listeners \<Rightarrow> parser \<Rightarrow> editor \<Rightarrow> bool outcome \<times> editor" where
  "validate L parse s =
     (let input = getValue s in
      case parse input of
        Returns v \<Rightarrow>
          (let (c, s1) = emit L InputValid (s\<lparr>data := v, assignments := Suc (assignments s)\<rparr>)
           in case c of
                Returns u \<Rightarrow> (Returns True, s1)
              | Throws e \<Rightarrow>
                  (Returns False, s1\<lparr>data := JNull, assignments := Suc (assignments s1)\<rparr>)
              | Diverges \<Rightarrow> (Diverges, s1))
      | Throws e \<Rightarrow> (Returns False, s\<lparr>data := JNull, assignments := Suc (assignments s)\<rparr>)
      | Diverges \<Rightarrow> (Diverges, s))"

subsection \<open>The widget and its change handler, lines 77 to 79\<close>

text \<open>
  \<open>this.editor.setValue(v)\<close> belongs to CodeMirror. It splits its argument into
  lines, which throws a TypeError for anything but a string, replaces the whole
  content and then signals \<open>change\<close> to the handlers registered so far; \<open>h\<close> is what
  they do. After line 77 the handler is \<open>on_change\<close>.
\<close>

definition setValue ::
    "(editor \<Rightarrow> unit outcome \<times> editor) \<Rightarrow> jsval \<Rightarrow> editor \<Rightarrow> unit outcome \<times> editor" where
  "setValue h v s = (case v of JStr t \<Rightarrow> h (s\<lparr>content := JStr t\<rparr>) | _ \<Rightarrow> (Throws TypeError, s))"

definition on_change :: "listeners \<Rightarrow> parser \<Rightarrow> editor \<Rightarrow> unit outcome \<times> editor" where
  "on_change L parse s =
     (let (c, s1) = validate L parse s
      in case c of
           Returns b \<Rightarrow> (Returns (), s1)
         | Throws e \<Rightarrow> (Throws e, s1)
         | Diverges \<Rightarrow> (Diverges, s1))"

subsection \<open>formatInput, lines 115 to 119\<close>

definition formatInput ::
    "listeners \<Rightarrow> parser \<Rightarrow> serializer \<Rightarrow> editor \<Rightarrow> unit outcome \<times> editor" where
  "formatInput L parse stringify s =
     (if JNull \<noteq> data s then setValue (on_change L parse) (stringify (data s)) s
      else (Returns (), s))"

subsection \<open>runFilter, lines 125 to 181\<close>

text \<open>
  The callbacks of the promise, lines 161 to 179. The chain is
  \<open>.then(f).catch(g)\<close>: \<open>g\<close> runs when the promise is rejected and also when \<open>f\<close>
  throws, that is, when a listener of its event throws. An exception of \<open>g\<close> goes
  nowhere.
\<close>

definition jq_then :: "listeners \<Rightarrow> jsval \<Rightarrow> editor \<Rightarrow> unit outcome \<times> editor" where
  "jq_then L r s = (if r = JNull then emit L FilterInvalid s else emit L (FilterValid r ''jq'') s)"

definition jq_catch :: "listeners \<Rightarrow> js_error \<Rightarrow> editor \<Rightarrow> unit outcome \<times> editor" where
  "jq_catch L e s = emit L FilterInvalid s"

definition settle :: "listeners \<Rightarrow> settlement \<Rightarrow> editor \<Rightarrow> editor" where
  "settle L p s =
     (case p of
        Fulfilled r \<Rightarrow>
          (let (c, s1) = jq_then L r s
           in case c of Throws e \<Rightarrow> snd (jq_catch L e s1) | _ \<Rightarrow> s1)
      | Rejected e \<Rightarrow> snd (jq_catch L e s)
      | Pending \<Rightarrow> s)"

text \<open>
  The synchronous part: how \<open>runFilter\<close> ends, with the promise it has started, if
  any, and the state it leaves. \<open>!filter || !filter.length\<close> holds for \<open>undefined\<close>
  and for the empty string; \<open>filter_is_empty\<close> is lines 133 and 134. That \<open>emit\<close> is outside the \<open>try\<close>; those of lines
  148 and 153 are inside, so an exception of their listeners is caught at line
  155 and starts the query.
\<close>

definition filter_is_empty :: "listeners \<Rightarrow> editor \<Rightarrow> settlement option outcome \<times> editor" where
  "filter_is_empty L s =
     (let (c, s1) = emit L FilterEmpty s
      in case c of
           Returns u \<Rightarrow> (Returns None, s1)
         | Throws e \<Rightarrow> (Throws e, s1)
         | Diverges \<Rightarrow> (Diverges, s1))"

definition runFilter ::
    "listeners \<Rightarrow> script_runner \<Rightarrow> query_runner \<Rightarrow> editor \<Rightarrow> settlement option outcome \<times> editor"
  where
  "runFilter L vm jq s =
     (case filter_val s of
        None \<Rightarrow> filter_is_empty L s
      | Some f \<Rightarrow>
          if f = [] then filter_is_empty L s
          else
            let code = ''result = x'' @ f;
                sandbox = \<lparr>sandbox_x = data s, sandbox_result = JNull\<rparr>;
                r = vm code sandbox;
                s1 = s\<lparr>data := x_object r\<rparr>
            in case completion r of
                 Returns u \<Rightarrow>
                   (let res = sandbox_result (sandbox_after r);
                        (c, s2) = (if truthy res then emit L (FilterValid res ''js'') s1
                                   else emit L FilterInvalid s1)
                    in case c of
                         Returns u \<Rightarrow> (Returns None, s2)
                       | Throws e \<Rightarrow> (Returns (Some (jq f (data s2))), s2)
                       | Diverges \<Rightarrow> (Diverges, s2))
               | Throws e \<Rightarrow> (Returns (Some (jq f (data s1))), s1)
               | Diverges \<Rightarrow> (Diverges, s1))"

text \<open>
  The events of one invocation: those emitted before \<open>runFilter\<close> ends, then those
  of its promise. The callbacks only emit, so the second part is the same whatever
  happens between the return and the settlement.
\<close>

definition new_events :: "editor \<Rightarrow> editor \<Rightarrow> event list" where
  "new_events s s' = drop (length (emitted s)) (emitted s')"

definition invocation_events ::
    "listeners \<Rightarrow> script_runner \<Rightarrow> query_runner \<Rightarrow> editor \<Rightarrow> event list" where
  "invocation_events L vm jq s =
     (let (c, s1) = runFilter L vm jq s
      in new_events s s1 @
           (case c of Returns (Some q) \<Rightarrow> new_events s1 (settle L q s1) | _ \<Rightarrow> []))"

fun terminal :: "event \<Rightarrow> bool" where
  "terminal (FilterValid r t) = True"
| "terminal FilterInvalid = True"
| "terminal InputValid = False"
| "terminal FilterEmpty = False"

subsection \<open>Sample runs\<close>

text \<open>
  The examples below run the class on two documents, \<open>{"a":{"b":[1,2,3]}}\<close> and
  \<open>{"a":1}\<close>, the second also after a script has set its property to 2.
  \<open>sample_state d t fv\<close> is an editor that has emitted nothing yet, with Document
  \<open>d\<close>, the text \<open>t\<close> in the widget and \<open>fv\<close> in the filter input.
\<close>

definition sample_state :: "jsval \<Rightarrow> string \<Rightarrow> string option \<Rightarrow> editor" where
  "sample_state d t fv = \<lparr>data = d, content = JStr t, filter_val = fv, emitted = [],
      assignments = 0\<rparr>"

definition doc_nested :: jsval where
  "doc_nested = JObj [(''a'', JObj [(''b'', JArr [JNum 1, JNum 2, JNum 3])])]"

definition doc_a1 :: jsval where
  "doc_a1 = JObj [(''a'', JNum 1)]"

definition doc_a2 :: jsval where
  "doc_a2 = JObj [(''a'', JNum 2)]"

text \<open>
  What Node does with the five scripts of the examples. \<open>x.a.b[1]\<close> and \<open>x.b\<close> read
  the document; \<open>x.a = 2\<close> writes the property of the object bound to \<open>x\<close> and has
  the value 2; \<open>xkeys\<close> is an unbound name; \<open>xuntil(false; .)\<close> does not parse.
  Nothing is said about any other script.
\<close>

definition node_vm :: script_runner where
  "node_vm code sb =
     (if code = ''result = x.a.b[1]'' \<and> sandbox_x sb = doc_nested
      then \<lparr>completion = Returns (), sandbox_after = sb\<lparr>sandbox_result := JNum 2\<rparr>,
            x_object = doc_nested\<rparr>
      else if code = ''result = x.b'' \<and> sandbox_x sb = doc_a1
      then \<lparr>completion = Returns (), sandbox_after = sb\<lparr>sandbox_result := JUndefined\<rparr>,
            x_object = doc_a1\<rparr>
      else if code = ''result = x.a = 2'' \<and> sandbox_x sb = doc_a1
      then \<lparr>completion = Returns (),
            sandbox_after = \<lparr>sandbox_x = doc_a2, sandbox_result = JNum 2\<rparr>,
            x_object = doc_a2\<rparr>
      else if code = ''result = xkeys''
      then \<lparr>completion = Throws ReferenceError, sandbox_after = sb, x_object = sandbox_x sb\<rparr>
      else if code = ''result = xuntil(false; .)''
      then \<lparr>completion = Throws SyntaxError, sandbox_after = sb, x_object = sandbox_x sb\<rparr>
      else undefined)"

text \<open>
  What jq does with the three filters that reach it: \<open>keys\<close> lists the property
  names, \<open>.b\<close> is null for an object without that property, and \<open>until(false; .)\<close>
  loops for ever, so its promise never settles. Nothing is said about any other
  filter.
\<close>

definition node_jq :: query_runner where
  "node_jq f d =
     (if f = ''keys'' \<and> d = doc_a1 then Fulfilled (JArr [JStr ''a''])
      else if f = ''.b'' \<and> d = doc_a1 then Fulfilled JNull
      else if f = ''until(false; .)'' then Pending
      else undefined)"

text \<open>
  What \<open>json5.parse\<close> and \<open>JSON.stringify(v, null, 2)\<close> do with the texts and values of
  the examples. JSON5 reads \<open>Infinity\<close> as a number and ignores white space around a
  value; JSON has no notation for infinity and writes \<open>null\<close> in its place, and it
  has nothing to write for \<open>undefined\<close>. Nothing is said about any other text or
  value.
\<close>

definition json5_sample :: parser where
  "json5_sample t =
     (if t = JStr ''1'' then Returns (JNum 1)
      else if t = JStr '' 1'' then Returns (JNum 1)
      else if t = JStr ''null'' then Returns JNull
      else if t = JStr ''null '' then Returns JNull
      else if t = JStr ''Infinity'' then Returns JPosInf
      else if t = JStr ''{'' then Throws SyntaxError
      else undefined)"

definition stringify_sample :: serializer where
  "stringify_sample v =
     (if v = JNum 1 then JStr ''1''
      else if v = JNull then JStr ''null''
      else if v = JPosInf then JStr ''null''
      else if v = JUndefined then JUndefined
      else undefined)"

text \<open>Listeners that never throw, and listeners of which one throws at a given event.\<close>

definition quiet :: listeners where
  "quiet e = None"

definition throwing_at :: "event \<Rightarrow> listeners" where
  "throwing_at e0 e = (if e = e0 then Some (OtherError ''listener'') else None)"



section \<open>Properties\<close>

subsection \<open>Events of a step\<close>

lemma emit_eq:
  "emit L e s = ((case L e of None \<Rightarrow> Returns () | Some err \<Rightarrow> Throws err),
                 s\<lparr>emitted := emitted s @ [e]\<rparr>)"
  by (simp add: emit_def)

lemma new_events_settle:
  "new_events t (settle L p t) =
     (case p of
        Fulfilled r \<Rightarrow>
          (let ev = (if r = JNull then FilterInvalid else FilterValid r ''jq'')
           in if L ev = None then [ev] else [ev, FilterInvalid])
      | Rejected e \<Rightarrow> [FilterInvalid]
      | Pending \<Rightarrow> [])"
  by (simp add: settle_def jq_then_def jq_catch_def new_events_def emit_def Let_def
           split: settlement.splits option.splits)

lemma new_events_data: "new_events s (s\<lparr>data := d\<rparr>) = []"
  by (simp add: new_events_def)

lemma sample_state_simps:
  "data (sample_state d t fv) = d"
  "content (sample_state d t fv) = JStr t"
  "filter_val (sample_state d t fv) = fv"
  "emitted (sample_state d t fv) = []"
  "assignments (sample_state d t fv) = 0"
  "(sample_state d t fv)\<lparr>data := d'\<rparr> = sample_state d' t fv"
  by (simp_all add: sample_state_def)

text \<open>\<open>runFilter\<close> on a filter text that is not empty, by the way the script ends.\<close>

lemma runFilter_nonempty_eq:
  assumes "filter_val s = Some f" and "f \<noteq> []"
    and "r = vm (''result = x'' @ f) \<lparr>sandbox_x = data s, sandbox_result = JNull\<rparr>"
    and "s1 = s\<lparr>data := x_object r\<rparr>"
    and "ev = (if truthy (sandbox_result (sandbox_after r))
               then FilterValid (sandbox_result (sandbox_after r)) ''js'' else FilterInvalid)"
  shows "runFilter L vm jq s =
     (case completion r of
        Returns u \<Rightarrow>
          (if L ev = None then Returns None else Returns (Some (jq f (x_object r))),
           s1\<lparr>emitted := emitted s @ [ev]\<rparr>)
      | Throws e \<Rightarrow> (Returns (Some (jq f (x_object r))), s1)
      | Diverges \<Rightarrow> (Diverges, s1))"
  using assms
  by (simp add: runFilter_def Let_def emit_def split: outcome.splits option.splits)

subsection \<open>One outcome event for each run of a filter\<close>

text \<open>
  C1, as the code has it. Take listeners that do not throw. A run of \<open>runFilter\<close>
  on a filter text that is not empty emits nothing but outcome events
  (\<open>filter-valid\<close>, \<open>filter-invalid\<close>), and never two of them, on either path. It
  emits exactly one when \<open>runFilter\<close> returns and the promise it may have started
  settles. The promise of the query evaluator has no timeout: while it is pending,
  no event is emitted for the run.
\<close>

theorem runFilter_terminal_events:
  assumes "filter_val s = Some f" and "f \<noteq> []" and "\<And>e. L e = None"
  shows "(invocation_events L vm jq s = []
          \<or> (\<exists>e. terminal e \<and> invocation_events L vm jq s = [e]))
     \<and> (runFilter L vm jq s = (Returns p, s1) \<and> p \<noteq> Some Pending \<longrightarrow>
          (\<exists>e. terminal e \<and> invocation_events L vm jq s = [e]))"
proof -
  define r where "r = vm (''result = x'' @ f) \<lparr>sandbox_x = data s, sandbox_result = JNull\<rparr>"
  define ev where "ev = (if truthy (sandbox_result (sandbox_after r))
               then FilterValid (sandbox_result (sandbox_after r)) ''js'' else FilterInvalid)"
  have tev: "terminal ev"
    by (simp add: ev_def)
  have eq: "runFilter L vm jq s =
     (case completion r of
        Returns u \<Rightarrow>
          (if L ev = None then Returns None else Returns (Some (jq f (x_object r))),
           s\<lparr>data := x_object r\<rparr>\<lparr>emitted := emitted s @ [ev]\<rparr>)
      | Throws e \<Rightarrow> (Returns (Some (jq f (x_object r))), s\<lparr>data := x_object r\<rparr>)
      | Diverges \<Rightarrow> (Diverges, s\<lparr>data := x_object r\<rparr>))"
    using assms(1,2) r_def refl ev_def by (rule runFilter_nonempty_eq)
  show ?thesis
  proof (cases "completion r")
    case (Returns u)
    then show ?thesis
      using eq tev assms(3) by (auto simp: invocation_events_def new_events_def)
  next
    case (Throws e)
    then show ?thesis
      using eq assms(3)
      by (auto simp: invocation_events_def new_events_settle Let_def new_events_data
               split: settlement.splits)
  next
    case Diverges
    then show ?thesis
      using eq by (simp add: invocation_events_def new_events_def)
  qed
qed

text \<open>
  The document \<open>{"a":1}\<close> with \<open>keys\<close> typed into the filter input: the script
  \<open>result = xkeys\<close> throws, jq answers \<open>["a"]\<close>, and the run emits one event.
\<close>

theorem runFilter_terminal_events_witness:
  "filter_val (sample_state doc_a1 ''{a: 1}'' (Some ''keys'')) = Some ''keys''
   \<and> ''keys'' \<noteq> []
   \<and> quiet FilterInvalid = None
   \<and> runFilter quiet node_vm node_jq (sample_state doc_a1 ''{a: 1}'' (Some ''keys''))
       = (Returns (Some (Fulfilled (JArr [JStr ''a'']))),
          sample_state doc_a1 ''{a: 1}'' (Some ''keys''))
   \<and> Some (Fulfilled (JArr [JStr ''a''])) \<noteq> Some Pending
   \<and> (\<exists>e. terminal e \<and>
          invocation_events quiet node_vm node_jq
            (sample_state doc_a1 ''{a: 1}'' (Some ''keys'')) = [e])"
proof -
  let ?s = "sample_state doc_a1 ''{a: 1}'' (Some ''keys'')"
  have run: "runFilter quiet node_vm node_jq ?s
               = (Returns (Some (Fulfilled (JArr [JStr ''a'']))), ?s)"
    by (simp add: runFilter_def Let_def node_vm_def node_jq_def sample_state_simps)
  have "\<exists>e. terminal e \<and> invocation_events quiet node_vm node_jq ?s = [e]"
    using runFilter_terminal_events
            [of ?s "''keys''" quiet node_vm node_jq "Some (Fulfilled (JArr [JStr ''a'']))" ?s]
          run
    by (simp add: sample_state_simps quiet_def)
  with run show ?thesis by (simp add: sample_state_simps quiet_def)
qed

text \<open>
  C1 as stated fails. With \<open>until(false; .)\<close> in the filter input, the script
  \<open>result = xuntil(false; .)\<close> does not parse, the filter goes to jq, and jq loops:
  the run has returned, its promise stays pending, and no event is emitted.
\<close>

theorem runFilter_pending_no_event:
  "filter_val (sample_state doc_a1 ''{a: 1}'' (Some ''until(false; .)'')) = Some ''until(false; .)''
   \<and> runFilter quiet node_vm node_jq (sample_state doc_a1 ''{a: 1}'' (Some ''until(false; .)''))
       = (Returns (Some Pending), sample_state doc_a1 ''{a: 1}'' (Some ''until(false; .)''))
   \<and> invocation_events quiet node_vm node_jq
        (sample_state doc_a1 ''{a: 1}'' (Some ''until(false; .)'')) = []"
  by (simp add: invocation_events_def runFilter_def Let_def node_vm_def
                node_jq_def new_events_def settle_def sample_state_simps)


subsection \<open>validate\<close>

text \<open>
  C2, as the code has it. When the parser returns a value and no listener of
  \<open>input-valid\<close> throws, \<open>validate\<close> stores the value in the Document field, emits
  \<open>input-valid\<close> once and returns true. When the parser throws, \<open>validate\<close> sets
  the field to null, emits nothing and returns false. No exception leaves
  \<open>validate\<close>, be it of the parser or of a listener.
\<close>

theorem validate_spec:
  "(parse (getValue s) = Returns v \<and> L InputValid = None \<longrightarrow>
      validate L parse s =
        (Returns True,
         s\<lparr>data := v, emitted := emitted s @ [InputValid], assignments := Suc (assignments s)\<rparr>))
   \<and> (parse (getValue s) = Throws e \<longrightarrow>
      validate L parse s =
        (Returns False, s\<lparr>data := JNull, assignments := Suc (assignments s)\<rparr>))
   \<and> fst (validate L parse s) \<noteq> Throws e'"
  by (auto simp: validate_def emit_def Let_def split: outcome.splits option.splits)

text \<open>The text \<open>1\<close> parses; the text \<open>{\<close> does not.\<close>

theorem validate_spec_witness:
  "json5_sample (getValue (sample_state JUndefined ''1'' None)) = Returns (JNum 1)
   \<and> quiet InputValid = None
   \<and> validate quiet json5_sample (sample_state JUndefined ''1'' None)
       = (Returns True,
          (sample_state (JNum 1) ''1'' None)\<lparr>emitted := [InputValid], assignments := 1\<rparr>)
   \<and> json5_sample (getValue (sample_state (JNum 1) ''{'' None)) = Throws SyntaxError
   \<and> validate quiet json5_sample (sample_state (JNum 1) ''{'' None)
       = (Returns False, (sample_state JNull ''{'' None)\<lparr>assignments := 1\<rparr>)"
proof -
  have ok: "json5_sample (getValue (sample_state JUndefined ''1'' None)) = Returns (JNum 1)"
    by (simp add: json5_sample_def getValue_def sample_state_simps)
  have bad: "json5_sample (getValue (sample_state (JNum 1) ''{'' None)) = Throws SyntaxError"
    by (simp add: json5_sample_def getValue_def sample_state_simps)
  show ?thesis
    using ok bad
      validate_spec [of json5_sample "sample_state JUndefined ''1'' None" "JNum 1" quiet]
      validate_spec [of json5_sample "sample_state (JNum 1) ''{'' None" _ quiet SyntaxError]
    by (simp add: sample_state_def quiet_def)
qed

text \<open>
  C2 as stated fails. The text \<open>1\<close> parses, and a listener of \<open>input-valid\<close>
  throws: the event has been emitted, the exception is caught at line 105, the
  Document is set to null and \<open>validate\<close> returns false.
\<close>

theorem validate_listener_throws:
  "json5_sample (getValue (sample_state JUndefined ''1'' None)) = Returns (JNum 1)
   \<and> validate (throwing_at InputValid) json5_sample (sample_state JUndefined ''1'' None)
       = (Returns False,
          (sample_state JNull ''1'' None)\<lparr>emitted := [InputValid], assignments := 2\<rparr>)"
  by (simp add: validate_def emit_def Let_def json5_sample_def getValue_def sample_state_def
                throwing_at_def)

subsection \<open>runFilter: the script throws\<close>

text \<open>
  C3. When the filter text is not empty and the script throws, \<open>runFilter\<close> emits
  nothing, calls the query evaluator with the filter text and the Document as it
  is then, and returns with the promise \<open>p\<close> of that call. The events of the run
  are those of \<open>p\<close>, whenever it settles. If \<open>p\<close> is fulfilled with null, the log
  gets \<open>filter-invalid\<close>; if it is fulfilled with another result, the log gets
  \<open>filter-valid\<close> with that result and the type \<open>jq\<close> (the tag of the query
  evaluator); if it is rejected, the log gets \<open>filter-invalid\<close>. In the first two
  cases a second \<open>filter-invalid\<close> follows if a listener of the first event throws.
\<close>

theorem runFilter_fallback:
  assumes "filter_val s = Some f" and "f \<noteq> []"
    and "r = vm (''result = x'' @ f) \<lparr>sandbox_x = data s, sandbox_result = JNull\<rparr>"
    and "completion r = Throws e"
    and "s1 = s\<lparr>data := x_object r\<rparr>"
    and "p = jq f (data s1)"
  shows "runFilter L vm jq s = (Returns (Some p), s1)
     \<and> emitted s1 = emitted s
     \<and> invocation_events L vm jq s = new_events t (settle L p t)
     \<and> emitted (settle L p t) = emitted t @ new_events t (settle L p t)
     \<and> (p = Fulfilled JNull \<longrightarrow>
          new_events t (settle L p t) =
            (if L FilterInvalid = None then [FilterInvalid] else [FilterInvalid, FilterInvalid]))
     \<and> (p = Fulfilled v \<and> v \<noteq> JNull \<longrightarrow>
          new_events t (settle L p t) =
            (if L (FilterValid v ''jq'') = None then [FilterValid v ''jq'']
             else [FilterValid v ''jq'', FilterInvalid]))
     \<and> (p = Rejected e' \<longrightarrow> new_events t (settle L p t) = [FilterInvalid])"
proof -
  have run: "runFilter L vm jq s = (Returns (Some p), s1)"
    using assms by (simp add: runFilter_def Let_def)
  have indep: "new_events s1 (settle L p s1) = new_events t (settle L p t)"
    by (simp add: new_events_settle)
  have events: "invocation_events L vm jq s = new_events t (settle L p t)"
    using run indep assms(5) by (simp add: invocation_events_def new_events_data)
  have grows: "emitted (settle L p t) = emitted t @ new_events t (settle L p t)"
    by (simp add: settle_def jq_then_def jq_catch_def new_events_def emit_def Let_def
             split: settlement.splits option.splits)
  show ?thesis
    using run events grows assms(5) by (auto simp: new_events_settle Let_def)
qed

text \<open>
  The document \<open>{"a":1}\<close> and the filter \<open>keys\<close>: \<open>xkeys\<close> is an unbound name in the
  script, jq is asked for \<open>keys\<close> of the document, and the log gets \<open>filter-valid\<close>
  with the result \<open>["a"]\<close>.
\<close>

theorem runFilter_fallback_witness:
  "filter_val (sample_state doc_a1 ''{a: 1}'' (Some ''keys'')) = Some ''keys''
   \<and> completion (node_vm ''result = xkeys'' \<lparr>sandbox_x = doc_a1, sandbox_result = JNull\<rparr>)
       = Throws ReferenceError
   \<and> node_jq ''keys'' doc_a1 = Fulfilled (JArr [JStr ''a''])
   \<and> JArr [JStr ''a''] \<noteq> JNull
   \<and> runFilter quiet node_vm node_jq (sample_state doc_a1 ''{a: 1}'' (Some ''keys''))
       = (Returns (Some (Fulfilled (JArr [JStr ''a'']))),
          sample_state doc_a1 ''{a: 1}'' (Some ''keys''))
   \<and> invocation_events quiet node_vm node_jq (sample_state doc_a1 ''{a: 1}'' (Some ''keys''))
       = [FilterValid (JArr [JStr ''a'']) ''jq'']
   \<and> emitted (settle quiet (Fulfilled (JArr [JStr ''a'']))
                 (sample_state doc_a1 ''{a: 1}'' (Some ''keys'')))
       = [FilterValid (JArr [JStr ''a'']) ''jq'']"
proof -
  let ?s = "sample_state doc_a1 ''{a: 1}'' (Some ''keys'')"
  let ?r = "node_vm ''result = xkeys'' \<lparr>sandbox_x = doc_a1, sandbox_result = JNull\<rparr>"
  have thrown: "completion ?r = Throws ReferenceError"
    by (simp add: node_vm_def)
  have obj: "x_object ?r = doc_a1"
    by (simp add: node_vm_def)
  have answer: "node_jq ''keys'' doc_a1 = Fulfilled (JArr [JStr ''a''])"
    by (simp add: node_jq_def)
  show ?thesis
    using thrown obj answer
      runFilter_fallback [of ?s "''keys''" ?r node_vm ReferenceError ?s
                             "Fulfilled (JArr [JStr ''a''])" node_jq quiet ?s
                             "JArr [JStr ''a'']"]
    by (simp add: sample_state_simps quiet_def)
qed


subsection \<open>runFilter: the script returns\<close>

text \<open>
  C4. When the filter text is not empty and the script returns with a truthy value
  in \<open>result\<close>, \<open>runFilter\<close> emits \<open>filter-valid\<close> with that value and the type \<open>js\<close>
  (the tag of the expression evaluator): it is what the run adds to the log before
  it returns, and the first event of the run. It is the only event of the run if
  no listener of it throws.
\<close>

theorem runFilter_truthy:
  assumes "filter_val s = Some f" and "f \<noteq> []"
    and "r = vm (''result = x'' @ f) \<lparr>sandbox_x = data s, sandbox_result = JNull\<rparr>"
    and "completion r = Returns ()"
    and "truthy (sandbox_result (sandbox_after r))"
    and "ev = FilterValid (sandbox_result (sandbox_after r)) ''js''"
  shows "snd (runFilter L vm jq s) = s\<lparr>data := x_object r, emitted := emitted s @ [ev]\<rparr>
     \<and> take 1 (invocation_events L vm jq s) = [ev]
     \<and> (L ev = None \<longrightarrow>
          fst (runFilter L vm jq s) = Returns None \<and> invocation_events L vm jq s = [ev])"
  using assms
  by (simp add: runFilter_def Let_def invocation_events_def new_events_def emit_def
           split: option.splits)

text \<open>
  The instance of C4: the Document \<open>{"a":{"b":[1,2,3]}}\<close> and the filter text
  \<open>.a.b[1]\<close>. The script is \<open>result = x.a.b[1]\<close>, its value is 2, and the one event
  of the run is \<open>filter-valid\<close> with result 2 and type \<open>js\<close>.
\<close>

theorem runFilter_truthy_witness:
  "filter_val (sample_state doc_nested ''{a: {b: [1, 2, 3]}}'' (Some ''.a.b[1]''))
     = Some ''.a.b[1]''
   \<and> ''result = x'' @ ''.a.b[1]'' = ''result = x.a.b[1]''
   \<and> completion
        (node_vm ''result = x.a.b[1]'' \<lparr>sandbox_x = doc_nested, sandbox_result = JNull\<rparr>)
       = Returns ()
   \<and> truthy (JNum 2)
   \<and> quiet (FilterValid (JNum 2) ''js'') = None
   \<and> runFilter quiet node_vm node_jq
        (sample_state doc_nested ''{a: {b: [1, 2, 3]}}'' (Some ''.a.b[1]''))
       = (Returns None,
          (sample_state doc_nested ''{a: {b: [1, 2, 3]}}'' (Some ''.a.b[1]''))
            \<lparr>emitted := [FilterValid (JNum 2) ''js'']\<rparr>)
   \<and> invocation_events quiet node_vm node_jq
        (sample_state doc_nested ''{a: {b: [1, 2, 3]}}'' (Some ''.a.b[1]''))
       = [FilterValid (JNum 2) ''js'']"
proof -
  let ?s = "sample_state doc_nested ''{a: {b: [1, 2, 3]}}'' (Some ''.a.b[1]'')"
  let ?r = "node_vm ''result = x.a.b[1]'' \<lparr>sandbox_x = doc_nested, sandbox_result = JNull\<rparr>"
  have returned: "completion ?r = Returns ()"
    by (simp add: node_vm_def)
  have val: "sandbox_result (sandbox_after ?r) = JNum 2"
    by (simp add: node_vm_def)
  have obj: "x_object ?r = doc_nested"
    by (simp add: node_vm_def)
  show ?thesis
    using returned val obj
      runFilter_truthy [of ?s "''.a.b[1]''" ?r node_vm "FilterValid (JNum 2) ''js''" quiet node_jq]
    by (simp add: sample_state_simps quiet_def sample_state_def prod_eq_iff)
qed

text \<open>
  C5, as the code has it. When the filter text is not empty and the script returns
  with a falsy value in \<open>result\<close>, \<open>runFilter\<close> emits \<open>filter-invalid\<close>. If no
  listener of \<open>filter-invalid\<close> throws, it is the only event of the run, no promise
  is started, and the query evaluator has no part in the result. Zero, the empty
  string, \<open>undefined\<close> and null are falsy.
\<close>

theorem runFilter_falsy:
  assumes "filter_val s = Some f" and "f \<noteq> []"
    and "r = vm (''result = x'' @ f) \<lparr>sandbox_x = data s, sandbox_result = JNull\<rparr>"
    and "completion r = Returns ()"
    and "\<not> truthy (sandbox_result (sandbox_after r))"
  shows "snd (runFilter L vm jq s) = s\<lparr>data := x_object r, emitted := emitted s @ [FilterInvalid]\<rparr>
     \<and> take 1 (invocation_events L vm jq s) = [FilterInvalid]
     \<and> (L FilterInvalid = None \<longrightarrow>
          fst (runFilter L vm jq s) = Returns None
          \<and> invocation_events L vm jq s = [FilterInvalid]
          \<and> runFilter L vm jq' s = runFilter L vm jq s)
     \<and> \<not> truthy (JNum 0) \<and> \<not> truthy (JStr []) \<and> \<not> truthy JUndefined \<and> \<not> truthy JNull"
  using assms
  by (simp add: runFilter_def Let_def invocation_events_def new_events_def emit_def
           split: option.splits)

text \<open>
  The Document \<open>{"a":1}\<close> and the filter text \<open>.b\<close>: the script \<open>result = x.b\<close>
  reads a property the document does not have, and its value is \<open>undefined\<close>.
\<close>

theorem runFilter_falsy_witness:
  "filter_val (sample_state doc_a1 ''{a: 1}'' (Some ''.b'')) = Some ''.b''
   \<and> completion (node_vm ''result = x.b'' \<lparr>sandbox_x = doc_a1, sandbox_result = JNull\<rparr>)
       = Returns ()
   \<and> \<not> truthy
         (sandbox_result
            (sandbox_after
               (node_vm ''result = x.b'' \<lparr>sandbox_x = doc_a1, sandbox_result = JNull\<rparr>)))
   \<and> quiet FilterInvalid = None
   \<and> runFilter quiet node_vm node_jq (sample_state doc_a1 ''{a: 1}'' (Some ''.b''))
       = (Returns None,
          (sample_state doc_a1 ''{a: 1}'' (Some ''.b''))\<lparr>emitted := [FilterInvalid]\<rparr>)
   \<and> invocation_events quiet node_vm node_jq (sample_state doc_a1 ''{a: 1}'' (Some ''.b''))
       = [FilterInvalid]"
proof -
  let ?s = "sample_state doc_a1 ''{a: 1}'' (Some ''.b'')"
  let ?r = "node_vm ''result = x.b'' \<lparr>sandbox_x = doc_a1, sandbox_result = JNull\<rparr>"
  have returned: "completion ?r = Returns ()"
    by (simp add: node_vm_def doc_a1_def doc_nested_def)
  have val: "sandbox_result (sandbox_after ?r) = JUndefined"
    by (simp add: node_vm_def doc_a1_def doc_nested_def)
  have obj: "x_object ?r = doc_a1"
    by (simp add: node_vm_def doc_a1_def doc_nested_def)
  show ?thesis
    using returned val obj runFilter_falsy [of ?s "''.b''" ?r node_vm quiet node_jq node_jq]
    by (simp add: sample_state_simps quiet_def sample_state_def prod_eq_iff)
qed

text \<open>
  C5 as stated fails. With the Document \<open>{"a":1}\<close>, the filter text \<open>.b\<close> and a
  listener of \<open>filter-invalid\<close> that throws, the exception is caught at line 155
  and the query evaluator is invoked with \<open>.b\<close>; its answer is null, and the run
  emits \<open>filter-invalid\<close> three times.
\<close>

theorem runFilter_falsy_listener_throws:
  "runFilter (throwing_at FilterInvalid) node_vm node_jq
     (sample_state doc_a1 ''{a: 1}'' (Some ''.b''))
     = (Returns (Some (node_jq ''.b'' doc_a1)),
        (sample_state doc_a1 ''{a: 1}'' (Some ''.b''))\<lparr>emitted := [FilterInvalid]\<rparr>)
   \<and> node_jq ''.b'' doc_a1 = Fulfilled JNull
   \<and> invocation_events (throwing_at FilterInvalid) node_vm node_jq
        (sample_state doc_a1 ''{a: 1}'' (Some ''.b''))
       = [FilterInvalid, FilterInvalid, FilterInvalid]"
  by (simp add: invocation_events_def runFilter_def Let_def node_vm_def node_jq_def
                new_events_def settle_def jq_then_def jq_catch_def emit_def throwing_at_def
                sample_state_def doc_a1_def doc_nested_def)

subsection \<open>runFilter: nothing in the filter input\<close>

text \<open>
  C7. When the filter input holds nothing (\<open>undefined\<close> or the empty string),
  \<open>runFilter\<close> emits \<open>filter-empty\<close> and stops. That is the only event, no promise
  is started, the state is otherwise as before, and neither evaluator nor the
  Document has a part in the result.
\<close>

theorem runFilter_empty:
  assumes "filter_val s = None \<or> filter_val s = Some []"
  shows "runFilter L vm jq s =
           ((case L FilterEmpty of None \<Rightarrow> Returns None | Some err \<Rightarrow> Throws err),
            s\<lparr>emitted := emitted s @ [FilterEmpty]\<rparr>)
     \<and> invocation_events L vm jq s = [FilterEmpty]
     \<and> data (snd (runFilter L vm jq s)) = data s
     \<and> invocation_events L vm' jq' (s\<lparr>data := d\<rparr>) = invocation_events L vm jq s"
  using assms
  by (auto simp: runFilter_def filter_is_empty_def invocation_events_def new_events_def emit_def
           split: option.splits)

text \<open>An empty filter input, with a Document and without one.\<close>

theorem runFilter_empty_witness:
  "(filter_val (sample_state doc_a1 ''{a: 1}'' (Some [])) = None
      \<or> filter_val (sample_state doc_a1 ''{a: 1}'' (Some [])) = Some [])
   \<and> runFilter quiet node_vm node_jq (sample_state doc_a1 ''{a: 1}'' (Some []))
       = (Returns None, (sample_state doc_a1 ''{a: 1}'' (Some []))\<lparr>emitted := [FilterEmpty]\<rparr>)
   \<and> invocation_events quiet node_vm node_jq (sample_state doc_a1 ''{a: 1}'' (Some []))
       = [FilterEmpty]
   \<and> invocation_events quiet node_vm node_jq (sample_state JNull ''{'' None) = [FilterEmpty]"
  using runFilter_empty [of "sample_state doc_a1 ''{a: 1}'' (Some [])" quiet node_vm node_jq]
    runFilter_empty [of "sample_state JNull ''{'' None" quiet node_vm node_jq]
  by (simp add: sample_state_simps quiet_def)


subsection \<open>formatInput\<close>

text \<open>
  C6 fails on the code at a Document that is null. The text \<open>null \<close> parses:
  \<open>validate\<close> returns true and emits \<open>input-valid\<close>, as for any other Document.
  \<open>formatInput\<close> then takes the null Document for the mark of a failed parse
  (line 116) and leaves the widget as it is, although the serialization of the
  Document is \<open>null\<close> and the content is \<open>null \<close>.
\<close>

theorem formatInput_parsed_null:
  "validate quiet json5_sample (sample_state JUndefined ''null '' None)
     = (Returns True,
        (sample_state JNull ''null '' None)\<lparr>emitted := [InputValid], assignments := 1\<rparr>)
   \<and> formatInput quiet json5_sample stringify_sample
        ((sample_state JNull ''null '' None)\<lparr>emitted := [InputValid], assignments := 1\<rparr>)
       = (Returns (),
          (sample_state JNull ''null '' None)\<lparr>emitted := [InputValid], assignments := 1\<rparr>)
   \<and> content ((sample_state JNull ''null '' None)\<lparr>emitted := [InputValid], assignments := 1\<rparr>)
       = JStr ''null ''
   \<and> stringify_sample
        (data ((sample_state JNull ''null '' None)\<lparr>emitted := [InputValid], assignments := 1\<rparr>))
       = JStr ''null''"
  by (simp add: validate_def getValue_def json5_sample_def formatInput_def
                stringify_sample_def emit_def sample_state_def quiet_def Let_def)

subsection \<open>Formatting validates again\<close>




subsection \<open>Who writes the Document\<close>




subsection \<open>The state the constructor leaves\<close>

text \<open>
  C10. After the constructor the Document field is \<open>undefined\<close>, which is not the
  null that the test of \<open>formatInput\<close> looks for. So \<open>formatInput\<close> is no no-op
  there: it calls \<open>setValue\<close> with the serialization of \<open>undefined\<close>. When that
  serialization is \<open>undefined\<close>, as it is for \<open>JSON.stringify\<close>, the widget answers
  the call with a TypeError, which leaves \<open>formatInput\<close>.
\<close>

theorem formatInput_initial:
  "data (constructor w fv) = JUndefined
   \<and> JNull \<noteq> data (constructor w fv)
   \<and> formatInput L parse stringify (constructor w fv)
       = setValue (on_change L parse) (stringify JUndefined) (constructor w fv)
   \<and> (stringify JUndefined = JUndefined \<longrightarrow>
        formatInput L parse stringify (constructor w fv) = (Throws TypeError, constructor w fv))"
  by (simp add: constructor_def formatInput_def setValue_def)

text \<open>The constructor with the message \<open>hello\<close>, and the serializer of the examples.\<close>

theorem formatInput_initial_witness:
  "stringify_sample JUndefined = JUndefined
   \<and> data (constructor ''hello'' None) = JUndefined
   \<and> formatInput quiet json5_sample stringify_sample (constructor ''hello'' None)
       = (Throws TypeError, constructor ''hello'' None)"
proof -
  have str: "stringify_sample JUndefined = JUndefined"
    by (simp add: stringify_sample_def)
  show ?thesis
    using str formatInput_initial [of "''hello''" None quiet json5_sample stringify_sample]
    by (simp add: setValue_def)
qed


end
